theory Spec2Isabelle
  imports Main
begin

section \<open>Deck slot finder and custom labware loader of \<^verbatim>\<open>ot2_script_3.py\<close>\<close>

subsection \<open>Python values and exceptions\<close>

text \<open>
  The exceptions that the two helpers raise or let through. \<open>IndexError\<close> is raised by
  \<^verbatim>\<open>next_empty_slot\<close> itself; \<open>FileNotFoundError\<close> and \<open>JSONDecodeError\<close> come from
  \<^verbatim>\<open>open\<close> and \<^verbatim>\<open>json.load\<close>; \<open>UnknownSlot\<close> is the platform's failure when the deck is
  indexed with an identifier it does not have; \<open>PlacementError\<close> is whatever the platform's
  placement primitive raises.
\<close>

datatype py_error =
    IndexError string
  | UnknownSlot int
  | FileNotFoundError string
  | JSONDecodeError
  | PlacementError

text \<open>
  The values a caller can hand over as \<^verbatim>\<open>deck_position\<close>: \<^verbatim>\<open>None\<close>, a boolean, an
  integer or a string. \<open>truthy\<close> is Python's truth value, which \<^verbatim>\<open>not deck_position\<close> tests.
\<close>

datatype pyval = PNone | PBool bool | PInt int | PStr string

fun truthy :: "pyval \<Rightarrow> bool" where
  "truthy PNone = False"
| "truthy (PBool b) = b"
| "truthy (PInt n) = (n \<noteq> 0)"
| "truthy (PStr s) = (s \<noteq> [])"

subsection \<open>Data model\<close>

datatype location = DeckSlot int | ModuleBay

text \<open>
  A labware carries the definition document it was created from (its type identifier is
  read from there), its location and the optional label.
\<close>

record 'd labware =
  lw_definition :: 'd
  lw_location :: location
  lw_label :: "string option"

text \<open>
  What a deck slot holds: an object with a string form (the result of \<^verbatim>\<open>str\<close>), which is a
  labware or, for a module, no labware.
\<close>

record 'd deck_item =
  item_str :: string
  item_labware :: "'d labware option"

text \<open>
  Modelled from the spec: the platform's deck, of which the repository has only the uses
  \<^verbatim>\<open>protocol.deck[slot]\<close> and \<^verbatim>\<open>for slot in protocol.deck\<close>. It is an ordered collection
  of slots indexed \<open>1..N\<close>, each holding one occupant or \<^verbatim>\<open>None\<close>: the list of the occupants
  of slots \<open>1\<close>, \<open>2\<close>, ..., \<open>N\<close>.
\<close>

record 'd protocol_context =
  deck :: "'d deck_item option list"

record 'd module_context =
  bay :: "'d labware option"

text \<open>
  The \<^verbatim>\<open>parent\<close> argument: the protocol context (the deck), or any other object, a module.
\<close>

datatype 'd parent =
    ProtocolContext "'d protocol_context"
  | ModuleContext "'d module_context"

text \<open>\<^verbatim>\<open>for slot in protocol.deck\<close>: the slot identifiers in ascending order.\<close>

definition deck_keys :: "'a list \<Rightarrow> int list" where
  "deck_keys d = map int [1..<Suc (length d)]"

text \<open>\<^verbatim>\<open>protocol.deck[slot]\<close>: the occupant, or a failure for an identifier outside \<open>1..N\<close>.\<close>

definition deck_getitem :: "'a option list \<Rightarrow> int \<Rightarrow> py_error + 'a option" where
  "deck_getitem d slot =
     (if 1 \<le> slot \<and> slot \<le> int (length d) then Inr (d ! nat (slot - 1))
      else Inl (UnknownSlot slot))"

text \<open>\<^verbatim>\<open>str(x)\<close> for an occupant or \<^verbatim>\<open>None\<close>.\<close>

fun py_str :: "'d deck_item option \<Rightarrow> string" where
  "py_str None = ''None''"
| "py_str (Some x) = item_str x"

subsection \<open>\<^verbatim>\<open>next_empty_slot\<close>\<close>

text \<open>
  One \<^verbatim>\<open>for\<close> loop of \<^verbatim>\<open>next_empty_slot\<close> over the identifiers \<open>slots\<close>:
  \<open>Inr (Some slot)\<close> when the loop returns \<open>slot\<close>, \<open>Inr None\<close> when it runs to its end,
  \<open>Inl e\<close> when indexing the deck raises.
\<close>

fun scan_slots :: "'a option list \<Rightarrow> int list \<Rightarrow> py_error + int option" where
  "scan_slots d [] = Inr None"
| "scan_slots d (slot # slots) =
     (case deck_getitem d slot of
        Inl e \<Rightarrow> Inl e
      | Inr labware \<Rightarrow>
          (case labware of None \<Rightarrow> Inr (Some slot) | Some _ \<Rightarrow> scan_slots d slots))"

definition next_empty_slot :: "'d protocol_context \<Rightarrow> py_error + int" where
  "next_empty_slot protocol =
     (case deck_getitem (deck protocol) 7 of
        Inl e \<Rightarrow> Inl e
      | Inr occupant \<Rightarrow>
          (case (if py_str occupant = ''Thermocycler Module on 7''
                 then scan_slots (deck protocol) [1, 2, 3, 4, 5, 6, 9]
                 else scan_slots (deck protocol) (deck_keys (deck protocol))) of
             Inl e \<Rightarrow> Inl e
           | Inr (Some slot) \<Rightarrow> Inr slot
           | Inr None \<Rightarrow> Inl (IndexError ''No Deck Slots Remaining'')))"

text \<open>The condition of the \<^verbatim>\<open>if\<close>: slot 7 exists and its occupant prints as the thermocycler.\<close>

definition thermocycler_loaded :: "'d protocol_context \<Rightarrow> bool" where
  "thermocycler_loaded protocol =
     (case deck_getitem (deck protocol) 7 of
        Inl e \<Rightarrow> False
      | Inr occupant \<Rightarrow> py_str occupant = ''Thermocycler Module on 7'')"

text \<open>A slot reports empty: it exists and indexing the deck there gives \<^verbatim>\<open>None\<close>.\<close>

definition slot_empty :: "'a option list \<Rightarrow> int \<Rightarrow> bool" where
  "slot_empty d slot = (deck_getitem d slot = Inr None)"

subsection \<open>The platform\<close>

text \<open>
  The platform's part in \<^verbatim>\<open>load_custom_labware\<close>, taken as a parameter: \<^verbatim>\<open>json.load\<close>
  (\<open>None\<close> when the contents are not valid JSON) and the two placement primitives
  \<^verbatim>\<open>load_labware_from_definition\<close>, the protocol context's with a location and a label and
  the module's with a label only. A primitive returns its result or exception together
  with the object as it has left it.
\<close>

record 'd platform =
  json_load :: "string \<Rightarrow> 'd option"
  deck_load_labware_from_definition ::
    "'d \<Rightarrow> pyval \<Rightarrow> string option \<Rightarrow> 'd protocol_context \<Rightarrow>
     (py_error + 'd labware) \<times> 'd protocol_context"
  module_load_labware_from_definition ::
    "'d \<Rightarrow> string option \<Rightarrow> 'd module_context \<Rightarrow>
     (py_error + 'd labware) \<times> 'd module_context"

subsection \<open>\<^verbatim>\<open>load_custom_labware\<close>\<close>

text \<open>
  The file system \<open>fs\<close> maps a path to the contents of the file there. The result is
  the returned labware or the exception, with the \<^verbatim>\<open>parent\<close> object as the call leaves it.
\<close>

definition load_custom_labware ::
  "'d platform \<Rightarrow> (string \<rightharpoonup> string) \<Rightarrow> 'd parent \<Rightarrow> string \<Rightarrow> pyval \<Rightarrow> string option \<Rightarrow>
   (py_error + 'd labware) \<times> 'd parent" where
  "load_custom_labware api fs parent file deck_position label =
     (case fs file of
        None \<Rightarrow> (Inl (FileNotFoundError file), parent)
      | Some contents \<Rightarrow>
          (case json_load api contents of
             None \<Rightarrow> (Inl JSONDecodeError, parent)
           | Some labware_file \<Rightarrow>
               (case parent of
                  ProtocolContext protocol \<Rightarrow>
                    (case (if \<not> truthy deck_position
                           then map_sum id PInt (next_empty_slot protocol)
                           else Inr deck_position) of
                       Inl e \<Rightarrow> (Inl e, parent)
                     | Inr position \<Rightarrow>
                         apsnd ProtocolContext
                           (deck_load_labware_from_definition api labware_file position label
                              protocol))
                | ModuleContext m \<Rightarrow>
                    apsnd ModuleContext
                      (module_load_labware_from_definition api labware_file label m))))"

subsection \<open>The placement primitives as the specification describes them\<close>

text \<open>
  Modelled from the spec: \<^verbatim>\<open>load_labware_from_definition\<close> of the protocol context, which is
  the platform's and not in the repository. It returns a new labware, placed in the given
  slot and carrying the label, and registers it in the deck's occupancy. The specification
  leaves collision detection ("if any") and the string form of the new occupant to the
  platform: \<open>detect\<close> says whether an occupied slot is refused, \<open>display\<close> gives the string.
\<close>

definition load_labware_from_definition_deck ::
  "bool \<Rightarrow> ('d labware \<Rightarrow> string) \<Rightarrow> 'd \<Rightarrow> pyval \<Rightarrow> string option \<Rightarrow> 'd protocol_context \<Rightarrow>
   (py_error + 'd labware) \<times> 'd protocol_context" where
  "load_labware_from_definition_deck detect display defn position label protocol =
     (case position of
        PInt slot \<Rightarrow>
          (if slot < 1 \<or> int (length (deck protocol)) < slot then (Inl PlacementError, protocol)
           else if detect \<and> deck protocol ! nat (slot - 1) \<noteq> None
             then (Inl PlacementError, protocol)
           else
             (let labware = \<lparr>lw_definition = defn, lw_location = DeckSlot slot, lw_label = label\<rparr>
              in (Inr labware,
                  protocol\<lparr>deck := (deck protocol)
                    [nat (slot - 1) := Some \<lparr>item_str = display labware, item_labware = Some labware\<rparr>]\<rparr>)))
      | _ \<Rightarrow> (Inl PlacementError, protocol))"

text \<open>
  Modelled from the spec: \<^verbatim>\<open>load_labware_from_definition\<close> of a module, which is the
  platform's and not in the repository. The module determines its own bay; the new labware
  carries the label and is registered in the bay.
\<close>

definition load_labware_from_definition_module ::
  "bool \<Rightarrow> 'd \<Rightarrow> string option \<Rightarrow> 'd module_context \<Rightarrow>
   (py_error + 'd labware) \<times> 'd module_context" where
  "load_labware_from_definition_module detect defn label m =
     (if detect \<and> bay m \<noteq> None then (Inl PlacementError, m)
      else
        (let labware = \<lparr>lw_definition = defn, lw_location = ModuleBay, lw_label = label\<rparr>
         in (Inr labware, m\<lparr>bay := Some labware\<rparr>)))"

definition spec_platform ::
  "(string \<Rightarrow> 'd option) \<Rightarrow> bool \<Rightarrow> ('d labware \<Rightarrow> string) \<Rightarrow> 'd platform" where
  "spec_platform parse detect display =
     \<lparr>json_load = parse,
      deck_load_labware_from_definition = load_labware_from_definition_deck detect display,
      module_load_labware_from_definition = load_labware_from_definition_module detect\<rparr>"

subsection \<open>Allocatable slots as the specification defines them\<close>

text \<open>
  The footprint reserved as a unit while the thermocycler is present: slots 7, 8, 10, 11.
\<close>

definition reserved_footprint :: "'d protocol_context \<Rightarrow> int set" where
  "reserved_footprint protocol = (if thermocycler_loaded protocol then {7, 8, 10, 11} else {})"

text \<open>
  A slot is allocatable if and only if it is not already holding labware and is not part
  of a reserved module footprint.
\<close>

definition allocatable :: "'d protocol_context \<Rightarrow> int \<Rightarrow> bool" where
  "allocatable protocol slot =
     (slot_empty (deck protocol) slot \<and> slot \<notin> reserved_footprint protocol)"

text \<open>The identifiers that the loop of \<^verbatim>\<open>next_empty_slot\<close> taken on this deck runs over.\<close>

definition candidate_slots :: "'d protocol_context \<Rightarrow> int list" where
  "candidate_slots protocol =
     (if thermocycler_loaded protocol then [1, 2, 3, 4, 5, 6, 9]
      else deck_keys (deck protocol))"

subsection \<open>The deck of the protocol script\<close>

text \<open>
  The deck as \<^verbatim>\<open>run\<close> has set it up when it calls \<^verbatim>\<open>load_custom_labware\<close>: tip racks in
  slots 1 and 2, the temperature module in 4, the thermocycler in 7 (slots 8, 10 and 11
  report empty), the fixed trash in 12.
\<close>

definition occupant :: "string \<Rightarrow> 'd deck_item" where
  "occupant s = \<lparr>item_str = s, item_labware = None\<rparr>"

definition script_deck :: "string deck_item option list" where
  "script_deck =
     [Some (occupant ''Tip Rack 20 on 1''), Some (occupant ''Tip Rack 300 on 2''), None,
      Some (occupant ''Temperature Module GEN2 on 4''), None, None,
      Some (occupant ''Thermocycler Module on 7''), None, None, None, None,
      Some (occupant ''Fixed Trash on 12'')]"

text \<open>The same deck without the thermocycler.\<close>

definition plain_deck :: "string deck_item option list" where
  "plain_deck = script_deck[6 := None]"

text \<open>
  The thermocycler deck with slots 1 to 6 and 9 occupied and slot 12 empty.
\<close>

definition crowded_deck :: "string deck_item option list" where
  "crowded_deck =
     [Some (occupant ''A on 1''), Some (occupant ''B on 2''), Some (occupant ''C on 3''),
      Some (occupant ''D on 4''), Some (occupant ''E on 5''), Some (occupant ''F on 6''),
      Some (occupant ''Thermocycler Module on 7''), None, Some (occupant ''G on 9''),
      None, None, None]"

text \<open>A deck with every slot outside the thermocycler's footprint occupied.\<close>

definition full_deck :: "string deck_item option list" where
  "full_deck = crowded_deck[11 := Some (occupant ''Fixed Trash on 12'')]"

text \<open>
  A file system with a definition file and a file that is not valid JSON, and a reader
  that accepts the one document.
\<close>

definition script_fs :: "string \<rightharpoonup> string" where
  "script_fs = [''labware/plate.json'' \<mapsto> ''{}'', ''labware/broken.json'' \<mapsto> ''{'']"

definition script_parse :: "string \<Rightarrow> string option" where
  "script_parse contents = (if contents = ''{}'' then Some ''plate'' else None)"

subsection \<open>The scan returns the first empty slot\<close>

lemma scan_slots_Some_iff:
  "sorted_wrt (<) slots \<Longrightarrow> \<forall>t\<in>set slots. 1 \<le> t \<and> (t \<le> int (length d) \<or> t = m) \<Longrightarrow>
   \<forall>t\<in>set slots. t \<le> m \<Longrightarrow>
   scan_slots d slots = Inr (Some s) \<longleftrightarrow>
     s \<in> set slots \<and> slot_empty d s \<and> (\<forall>t\<in>set slots. t < s \<longrightarrow> \<not> slot_empty d t)"
proof (induction slots)
  case Nil
  then show ?case by simp
next
  case (Cons a slots)
  show ?case
  proof (cases "deck_getitem d a")
    case (Inl e)
    then have out: "\<not> (1 \<le> a \<and> a \<le> int (length d))"
      by (auto simp: deck_getitem_def split: if_splits)
    with Cons.prems(2) have "a = m" by auto
    with Cons.prems(1,3) have "slots = []"
      by (cases slots) force+
    with Inl show ?thesis by (auto simp: slot_empty_def)
  next
    case (Inr labware)
    show ?thesis
    proof (cases labware)
      case None
      with Inr Cons.prems(1) show ?thesis
        by (auto simp: slot_empty_def)
    next
      case (Some x)
      from Cons.prems have "scan_slots d slots = Inr (Some s) \<longleftrightarrow>
          s \<in> set slots \<and> slot_empty d s \<and> (\<forall>t\<in>set slots. t < s \<longrightarrow> \<not> slot_empty d t)"
        by (intro Cons.IH) auto
      with Inr Some Cons.prems(1) show ?thesis
        by (auto simp: slot_empty_def)
    qed
  qed
qed

lemma deck_keys_set: "set (deck_keys d) = {t. 1 \<le> t \<and> t \<le> int (length d)}"
proof -
  have "\<And>x. 1 \<le> x \<Longrightarrow> x \<le> int (length d) \<Longrightarrow> x \<in> int ` {Suc 0..<Suc (length d)}"
  proof -
    fix x :: int
    assume "1 \<le> x" "x \<le> int (length d)"
    then have "nat x \<in> {Suc 0..<Suc (length d)}" and "x = int (nat x)" by auto
    then show "x \<in> int ` {Suc 0..<Suc (length d)}" by (rule_tac image_eqI)
  qed
  then show ?thesis by (auto simp add: deck_keys_def simp del: upt_Suc)
qed

lemma deck_keys_sorted: "sorted_wrt (<) (deck_keys d)"
  by (simp add: deck_keys_def sorted_wrt_map del: upt_Suc)

lemma scan_slots_None_iff:
  "scan_slots d slots = Inr None \<longleftrightarrow> (\<forall>t\<in>set slots. \<exists>x. deck_getitem d t = Inr (Some x))"
  by (induction slots) (auto split: sum.splits option.splits)

lemma slot_empty_iff: "slot_empty d s \<longleftrightarrow> 1 \<le> s \<and> s \<le> int (length d) \<and> d ! nat (s - 1) = None"
  by (auto simp: slot_empty_def deck_getitem_def)

lemma thermocycler_loaded_iff:
  "thermocycler_loaded p \<longleftrightarrow> 7 \<le> length (deck p) \<and> py_str (deck p ! 6) = ''Thermocycler Module on 7''"
  by (auto simp: thermocycler_loaded_def deck_getitem_def)

lemma next_empty_slot_thermo:
  "thermocycler_loaded p \<Longrightarrow>
   next_empty_slot p =
     (case scan_slots (deck p) [1, 2, 3, 4, 5, 6, 9] of
        Inl e \<Rightarrow> Inl e | Inr (Some slot) \<Rightarrow> Inr slot
      | Inr None \<Rightarrow> Inl (IndexError ''No Deck Slots Remaining''))"
  by (auto simp: thermocycler_loaded_def next_empty_slot_def split: sum.splits)

lemma next_empty_slot_plain:
  "7 \<le> length (deck p) \<Longrightarrow> \<not> thermocycler_loaded p \<Longrightarrow>
   next_empty_slot p =
     (case scan_slots (deck p) (deck_keys (deck p)) of
        Inl e \<Rightarrow> Inl e | Inr (Some slot) \<Rightarrow> Inr slot
      | Inr None \<Rightarrow> Inl (IndexError ''No Deck Slots Remaining''))"
  by (auto simp: thermocycler_loaded_def next_empty_slot_def deck_getitem_def split: sum.splits)

lemma result_Inr_iff:
  "(case r of Inl e \<Rightarrow> Inl e | Inr (Some slot) \<Rightarrow> Inr slot
      | Inr None \<Rightarrow> Inl (IndexError ''No Deck Slots Remaining'')) = Inr s \<longleftrightarrow> r = Inr (Some s)"
  by (auto split: sum.splits option.splits)

lemma scan_thermo_iff:
  assumes "7 \<le> length d"
  shows "scan_slots d [1, 2, 3, 4, 5, 6, 9] = Inr (Some s) \<longleftrightarrow>
     s \<in> {1, 2, 3, 4, 5, 6, 9} \<and> slot_empty d s \<and>
     (\<forall>t\<in>{1, 2, 3, 4, 5, 6, 9}. t < s \<longrightarrow> \<not> slot_empty d t)"
proof -
  have "scan_slots d [1, 2, 3, 4, 5, 6, 9] = Inr (Some s) \<longleftrightarrow>
     s \<in> set [1, 2, 3, 4, 5, 6, 9] \<and> slot_empty d s \<and>
     (\<forall>t\<in>set [1, 2, 3, 4, 5, 6, 9]. t < s \<longrightarrow> \<not> slot_empty d t)"
    using assms by (intro scan_slots_Some_iff [where m = 9]) auto
  then show ?thesis by simp
qed

lemma scan_keys_iff:
  "scan_slots d (deck_keys d) = Inr (Some s) \<longleftrightarrow>
     1 \<le> s \<and> s \<le> int (length d) \<and> slot_empty d s \<and>
     (\<forall>t. 1 \<le> t \<and> t < s \<longrightarrow> \<not> slot_empty d t)"
proof -
  have "scan_slots d (deck_keys d) = Inr (Some s) \<longleftrightarrow>
     s \<in> set (deck_keys d) \<and> slot_empty d s \<and>
     (\<forall>t\<in>set (deck_keys d). t < s \<longrightarrow> \<not> slot_empty d t)"
    by (intro scan_slots_Some_iff [where m = "int (length d)"])
       (auto simp: deck_keys_sorted deck_keys_set)
  then show ?thesis by (auto simp: deck_keys_set)
qed

subsection \<open>Claims about \<^verbatim>\<open>next_empty_slot\<close>\<close>

text \<open>
  Claim C1. On every deck whose slot 7 holds the thermocycler, \<^verbatim>\<open>next_empty_slot\<close> returns
  a slot exactly when that slot is the smallest-numbered one among 1, 2, 3, 4, 5, 6 and 9
  that reports empty; it never returns 8, 10 or 11, whatever they report.
\<close>

theorem next_empty_slot_thermocycler:
  assumes "thermocycler_loaded protocol"
  shows "(next_empty_slot protocol = Inr s \<longleftrightarrow>
            s \<in> {1, 2, 3, 4, 5, 6, 9} \<and> slot_empty (deck protocol) s \<and>
            (\<forall>t\<in>{1, 2, 3, 4, 5, 6, 9}. t < s \<longrightarrow> \<not> slot_empty (deck protocol) t))
         \<and> next_empty_slot protocol \<noteq> Inr 8
         \<and> next_empty_slot protocol \<noteq> Inr 10
         \<and> next_empty_slot protocol \<noteq> Inr 11"
proof -
  from assms have len: "7 \<le> length (deck protocol)"
    by (simp add: thermocycler_loaded_iff)
  have *: "next_empty_slot protocol = Inr s \<longleftrightarrow>
            s \<in> {1, 2, 3, 4, 5, 6, 9} \<and> slot_empty (deck protocol) s \<and>
            (\<forall>t\<in>{1, 2, 3, 4, 5, 6, 9}. t < s \<longrightarrow> \<not> slot_empty (deck protocol) t)" for s
    unfolding next_empty_slot_thermo [OF assms] result_Inr_iff
    by (rule scan_thermo_iff [OF len])
  show ?thesis
    using * [of s] * [of 8] * [of 10] * [of 11] by simp
qed

theorem next_empty_slot_thermocycler_witness:
  "thermocycler_loaded \<lparr>deck = script_deck\<rparr> \<and> slot_empty script_deck 8
   \<and> next_empty_slot \<lparr>deck = script_deck\<rparr> = Inr 3"
proof -
  have h: "thermocycler_loaded \<lparr>deck = script_deck\<rparr>"
    by (simp add: thermocycler_loaded_iff script_deck_def occupant_def)
  have e: "slot_empty script_deck 3" "\<not> slot_empty script_deck 1" "\<not> slot_empty script_deck 2"
    "slot_empty script_deck 8"
    by (simp_all add: slot_empty_iff script_deck_def)
  from next_empty_slot_thermocycler [OF h, of 3] h e show ?thesis by simp
qed

text \<open>
  Claim C2. On every deck that has a slot 7 not holding the thermocycler,
  \<^verbatim>\<open>next_empty_slot\<close> returns a slot exactly when that slot is the smallest-numbered empty
  slot of \<open>1..N\<close>: the scan runs over the identifiers in ascending order and stops at the
  first empty one.
\<close>

theorem next_empty_slot_no_thermocycler:
  assumes "7 \<le> length (deck protocol)" and "\<not> thermocycler_loaded protocol"
  shows "next_empty_slot protocol = Inr s \<longleftrightarrow>
           1 \<le> s \<and> s \<le> int (length (deck protocol)) \<and> slot_empty (deck protocol) s \<and>
           (\<forall>t. 1 \<le> t \<and> t < s \<longrightarrow> \<not> slot_empty (deck protocol) t)"
  unfolding next_empty_slot_plain [OF assms] result_Inr_iff
  by (rule scan_keys_iff)

theorem next_empty_slot_no_thermocycler_witness:
  "7 \<le> length (deck \<lparr>deck = plain_deck\<rparr>) \<and> \<not> thermocycler_loaded \<lparr>deck = plain_deck\<rparr>
   \<and> next_empty_slot \<lparr>deck = plain_deck\<rparr> = Inr 3"
proof -
  have l: "7 \<le> length (deck \<lparr>deck = plain_deck\<rparr>)"
    by (simp add: plain_deck_def script_deck_def)
  have h: "\<not> thermocycler_loaded \<lparr>deck = plain_deck\<rparr>"
    by (simp add: thermocycler_loaded_iff plain_deck_def script_deck_def occupant_def)
  have e: "slot_empty plain_deck 3" "\<not> slot_empty plain_deck 1" "\<not> slot_empty plain_deck 2"
    by (simp_all add: slot_empty_iff plain_deck_def script_deck_def)
  have "\<forall>t. 1 \<le> t \<and> t < 3 \<longrightarrow> \<not> slot_empty plain_deck t"
  proof (intro allI impI)
    fix t :: int assume "1 \<le> t \<and> t < 3"
    then have "t = 1 \<or> t = 2" by arith
    with e show "\<not> slot_empty plain_deck t" by auto
  qed
  with next_empty_slot_no_thermocycler [OF l h, of 3] l h e show ?thesis
    by (simp add: plain_deck_def script_deck_def)
qed

text \<open>
  Claim C3, as stated, fails: with the thermocycler present, slots 1 to 6 and 9 occupied and
  slot 12 empty, slot 12 is allocatable (it holds nothing and lies outside the footprint
  7, 8, 10, 11), yet the call raises the capacity error.
\<close>

theorem next_empty_slot_allocatable_counterexample:
  "thermocycler_loaded \<lparr>deck = crowded_deck\<rparr>
   \<and> allocatable \<lparr>deck = crowded_deck\<rparr> 12
   \<and> next_empty_slot \<lparr>deck = crowded_deck\<rparr> = Inl (IndexError ''No Deck Slots Remaining'')"
  by (simp add: thermocycler_loaded_iff allocatable_def reserved_footprint_def slot_empty_iff
      next_empty_slot_def deck_getitem_def crowded_deck_def occupant_def)

text \<open>
  Claim C3, amended. On every deck with a slot 7, \<^verbatim>\<open>next_empty_slot\<close> succeeds if and only
  if an allocatable slot exists among the slots it scans (1 to 6 and 9 while the thermocycler
  is present, every slot otherwise); the slot it returns is one of those and is allocatable;
  and whenever the thermocycler is present and one of the slots 1 to 6 and 9 is empty, the
  call does not fail with the capacity error.
\<close>

theorem next_empty_slot_succeeds_iff:
  assumes "7 \<le> length (deck protocol)"
  shows "((\<exists>s. next_empty_slot protocol = Inr s) \<longleftrightarrow>
            (\<exists>s\<in>set (candidate_slots protocol). allocatable protocol s))
         \<and> (next_empty_slot protocol = Inr s \<longrightarrow>
              s \<in> set (candidate_slots protocol) \<and> allocatable protocol s)
         \<and> (thermocycler_loaded protocol \<and> t \<in> {1, 2, 3, 4, 5, 6, 9} \<and>
              slot_empty (deck protocol) t \<longrightarrow>
              next_empty_slot protocol \<noteq> Inl (IndexError ''No Deck Slots Remaining''))"
proof (cases "thermocycler_loaded protocol")
  case True
  let ?d = "deck protocol"
  have cand: "candidate_slots protocol = [1, 2, 3, 4, 5, 6, 9]"
    using True by (simp add: candidate_slots_def)
  have alloc: "allocatable protocol u \<longleftrightarrow> slot_empty ?d u" if "u \<in> {1, 2, 3, 4, 5, 6, 9}" for u
    using that True by (auto simp: allocatable_def reserved_footprint_def)
  have ret: "u \<in> {1, 2, 3, 4, 5, 6, 9} \<and> slot_empty ?d u" if "next_empty_slot protocol = Inr u" for u
    using that unfolding next_empty_slot_thermo [OF True] result_Inr_iff scan_thermo_iff [OF assms]
    by simp
  have some: "\<exists>u. next_empty_slot protocol = Inr u"
    if "u \<in> {1, 2, 3, 4, 5, 6, 9}" "slot_empty ?d u" for u
  proof -
    have "scan_slots ?d [1, 2, 3, 4, 5, 6, 9] \<noteq> Inr None"
    proof
      assume "scan_slots ?d [1, 2, 3, 4, 5, 6, 9] = Inr None"
      then have "\<exists>x. deck_getitem ?d u = Inr (Some x)"
        using that(1) unfolding scan_slots_None_iff by auto
      with that(2) show False by (simp add: slot_empty_def)
    qed
    moreover have "\<exists>r. scan_slots ?d [1, 2, 3, 4, 5, 6, 9] = Inr r"
      using that assms
      by (auto simp: deck_getitem_def slot_empty_def split: option.splits if_splits)
    ultimately show ?thesis
      unfolding next_empty_slot_thermo [OF True] by (auto split: option.splits)
  qed
  have 1: "(\<exists>s. next_empty_slot protocol = Inr s) \<longleftrightarrow>
            (\<exists>s\<in>set (candidate_slots protocol). allocatable protocol s)"
  proof
    assume "\<exists>s. next_empty_slot protocol = Inr s"
    then obtain u where "next_empty_slot protocol = Inr u" ..
    from ret [OF this] alloc [of u] show "\<exists>s\<in>set (candidate_slots protocol). allocatable protocol s"
      unfolding cand by auto
  next
    assume "\<exists>s\<in>set (candidate_slots protocol). allocatable protocol s"
    then obtain u where "u \<in> {1, 2, 3, 4, 5, 6, 9}" "allocatable protocol u"
      unfolding cand by auto
    with alloc [of u] some [of u] show "\<exists>s. next_empty_slot protocol = Inr s" by simp
  qed
  have 2: "next_empty_slot protocol = Inr s \<longrightarrow>
              s \<in> set (candidate_slots protocol) \<and> allocatable protocol s"
    using ret [of s] alloc [of s] unfolding cand by auto
  have 3: "thermocycler_loaded protocol \<and> t \<in> {1, 2, 3, 4, 5, 6, 9} \<and>
              slot_empty (deck protocol) t \<longrightarrow>
              next_empty_slot protocol \<noteq> Inl (IndexError ''No Deck Slots Remaining'')"
    using some [of t] by auto
  from 1 2 3 show ?thesis by blast
next
  case False
  let ?d = "deck protocol"
  have cand: "set (candidate_slots protocol) = {u. 1 \<le> u \<and> u \<le> int (length ?d)}"
    using False by (simp add: candidate_slots_def deck_keys_set)
  have alloc: "allocatable protocol u \<longleftrightarrow> slot_empty ?d u" for u
    using False by (simp add: allocatable_def reserved_footprint_def)
  have ret: "1 \<le> u \<and> u \<le> int (length ?d) \<and> slot_empty ?d u"
    if "next_empty_slot protocol = Inr u" for u
    using that unfolding next_empty_slot_plain [OF assms False] result_Inr_iff scan_keys_iff
    by simp
  have some: "\<exists>u. next_empty_slot protocol = Inr u" if "slot_empty ?d u" for u
  proof -
    have "scan_slots ?d (deck_keys ?d) \<noteq> Inr None"
    proof
      assume "scan_slots ?d (deck_keys ?d) = Inr None"
      moreover from that have "u \<in> set (deck_keys ?d)"
        by (simp add: deck_keys_set slot_empty_iff)
      ultimately have "\<exists>x. deck_getitem ?d u = Inr (Some x)"
        unfolding scan_slots_None_iff by blast
      with that show False by (simp add: slot_empty_def)
    qed
    moreover have "\<exists>r. scan_slots ?d ks = Inr r" if "set ks \<subseteq> set (deck_keys ?d)" for ks
      using that
      by (induction ks) (auto simp: deck_keys_set deck_getitem_def split: option.splits)
    then have "\<exists>r. scan_slots ?d (deck_keys ?d) = Inr r" by simp
    ultimately show ?thesis
      unfolding next_empty_slot_plain [OF assms False] by (auto split: option.splits)
  qed
  have 1: "(\<exists>s. next_empty_slot protocol = Inr s) \<longleftrightarrow>
            (\<exists>s\<in>set (candidate_slots protocol). allocatable protocol s)"
    using ret some unfolding cand alloc by (auto simp: slot_empty_iff)
  have 2: "next_empty_slot protocol = Inr s \<longrightarrow>
              s \<in> set (candidate_slots protocol) \<and> allocatable protocol s"
    using ret [of s] unfolding cand alloc by auto
  from 1 2 False show ?thesis by blast
qed

theorem next_empty_slot_succeeds_iff_witness:
  "7 \<le> length (deck \<lparr>deck = script_deck\<rparr>)
   \<and> thermocycler_loaded \<lparr>deck = script_deck\<rparr>
   \<and> 3 \<in> set (candidate_slots \<lparr>deck = script_deck\<rparr>)
   \<and> allocatable \<lparr>deck = script_deck\<rparr> 3
   \<and> (\<exists>s. next_empty_slot \<lparr>deck = script_deck\<rparr> = Inr s)
   \<and> next_empty_slot \<lparr>deck = script_deck\<rparr> \<noteq> Inl (IndexError ''No Deck Slots Remaining'')"
proof -
  have l: "7 \<le> length (deck \<lparr>deck = script_deck\<rparr>)"
    by (simp add: script_deck_def)
  have h: "thermocycler_loaded \<lparr>deck = script_deck\<rparr>"
    by (simp add: thermocycler_loaded_iff script_deck_def occupant_def)
  have c: "3 \<in> set (candidate_slots \<lparr>deck = script_deck\<rparr>)"
    using h by (simp add: candidate_slots_def)
  have e: "slot_empty (deck \<lparr>deck = script_deck\<rparr>) 3"
    by (simp add: slot_empty_iff script_deck_def)
  have a: "allocatable \<lparr>deck = script_deck\<rparr> 3"
    using h e by (simp add: allocatable_def reserved_footprint_def)
  from c a have "\<exists>s\<in>set (candidate_slots \<lparr>deck = script_deck\<rparr>). allocatable \<lparr>deck = script_deck\<rparr> s"
    by blast
  with next_empty_slot_succeeds_iff [OF l, of 0 3] l h c a e show ?thesis by simp
qed

text \<open>
  Claim C4. On every deck (with the slots 7 and 9 that the function indexes) whose slots
  outside the reserved footprint are all occupied, \<^verbatim>\<open>next_empty_slot\<close> fails with
  \<^verbatim>\<open>IndexError('No Deck Slots Remaining')\<close>. The function only reads the deck: it has no
  resulting state, and the loader that calls it for a missing slot hands its parent back
  unchanged.
\<close>

theorem next_empty_slot_exhausted:
  assumes "9 \<le> length (deck protocol)"
    and "\<forall>s\<in>set (deck_keys (deck protocol)).
           s \<notin> reserved_footprint protocol \<longrightarrow> \<not> slot_empty (deck protocol) s"
  shows "next_empty_slot protocol = Inl (IndexError ''No Deck Slots Remaining'')
         \<and> (\<not> truthy deck_position \<longrightarrow>
              snd (load_custom_labware api fs (ProtocolContext protocol) file deck_position label)
                = ProtocolContext protocol)"
proof -
  let ?d = "deck protocol"
  have occ: "\<exists>x. deck_getitem ?d u = Inr (Some x)"
    if "1 \<le> u" "u \<le> int (length ?d)" "u \<notin> reserved_footprint protocol" for u
  proof -
    from that have "u \<in> set (deck_keys ?d)" by (simp add: deck_keys_set)
    with assms(2) that(3) have "\<not> slot_empty ?d u" by blast
    with that(1,2) show ?thesis by (simp add: slot_empty_def deck_getitem_def)
  qed
  have fail: "next_empty_slot protocol = Inl (IndexError ''No Deck Slots Remaining'')"
  proof (cases "thermocycler_loaded protocol")
    case True
    have "\<forall>u\<in>set [1, 2, 3, 4, 5, 6, 9]. \<exists>x. deck_getitem ?d u = Inr (Some x)"
      using assms(1) True by (auto intro!: occ simp: reserved_footprint_def)
    then have "scan_slots ?d [1, 2, 3, 4, 5, 6, 9] = Inr None"
      unfolding scan_slots_None_iff .
    then show ?thesis unfolding next_empty_slot_thermo [OF True] by simp
  next
    case False
    have "\<forall>u\<in>set (deck_keys ?d). \<exists>x. deck_getitem ?d u = Inr (Some x)"
      using False by (auto intro!: occ simp: reserved_footprint_def deck_keys_set)
    then have "scan_slots ?d (deck_keys ?d) = Inr None"
      unfolding scan_slots_None_iff .
    moreover from assms(1) have "7 \<le> length ?d" by simp
    ultimately show ?thesis using next_empty_slot_plain [OF _ False] by simp
  qed
  then show ?thesis
    by (simp add: load_custom_labware_def split: option.splits)
qed

theorem next_empty_slot_exhausted_witness:
  "9 \<le> length (deck \<lparr>deck = full_deck\<rparr>)
   \<and> next_empty_slot \<lparr>deck = full_deck\<rparr> = Inl (IndexError ''No Deck Slots Remaining'')
   \<and> \<not> truthy PNone
   \<and> snd (load_custom_labware (spec_platform script_parse True (\<lambda>l. ''plate'')) script_fs
        (ProtocolContext \<lparr>deck = full_deck\<rparr>) ''labware/plate.json'' PNone None)
       = ProtocolContext \<lparr>deck = full_deck\<rparr>"
proof -
  have l: "9 \<le> length (deck \<lparr>deck = full_deck\<rparr>)"
    by (simp add: full_deck_def crowded_deck_def)
  have h: "thermocycler_loaded \<lparr>deck = full_deck\<rparr>"
    by (simp add: thermocycler_loaded_iff full_deck_def crowded_deck_def occupant_def)
  have k: "set (deck_keys full_deck) = {1, 2, 3, 4, 5, 6, 7, 8, 9, 10, 11, 12}"
    by (auto simp: deck_keys_set full_deck_def crowded_deck_def; arith)
  have e: "\<not> slot_empty full_deck s" if "s \<in> {1, 2, 3, 4, 5, 6, 9, 12}" for s
    using that by (auto simp: slot_empty_iff full_deck_def crowded_deck_def)
  have r: "reserved_footprint \<lparr>deck = full_deck\<rparr> = {7, 8, 10, 11}"
    using h by (simp add: reserved_footprint_def)
  have o: "\<forall>s\<in>set (deck_keys (deck \<lparr>deck = full_deck\<rparr>)).
           s \<notin> reserved_footprint \<lparr>deck = full_deck\<rparr> \<longrightarrow> \<not> slot_empty (deck \<lparr>deck = full_deck\<rparr>) s"
    using e by (auto simp: k r)
  from next_empty_slot_exhausted [OF l o, of PNone] l show ?thesis by simp
qed

subsection \<open>Claims about \<^verbatim>\<open>load_custom_labware\<close>\<close>

lemma slot_identifier_truthy: "1 \<le> n \<Longrightarrow> truthy (PInt n)"
  by simp

lemma next_empty_slot_third:
  assumes "7 \<le> length (deck protocol)" and "\<not> thermocycler_loaded protocol"
    and "\<not> slot_empty (deck protocol) 1" and "\<not> slot_empty (deck protocol) 2"
    and "slot_empty (deck protocol) 3"
  shows "next_empty_slot protocol = Inr 3"
proof -
  have "\<not> slot_empty (deck protocol) t" if "1 \<le> t \<and> t < 3" for t
  proof -
    from that have "t = 1 \<or> t = 2" by arith
    with assms(3,4) show ?thesis by auto
  qed
  with assms show ?thesis
    unfolding next_empty_slot_plain [OF assms(1,2)] result_Inr_iff scan_keys_iff
    by simp
qed

text \<open>
  Claim C5. When the parent is the protocol context, no slot is supplied and the definition
  file loads, the loader takes the slot from \<^verbatim>\<open>next_empty_slot\<close> on the current deck and
  hands it to the placement primitive (or lets the finder's exception through). On a deck
  with slots 1 and 2 occupied, slot 3 empty and no thermocycler, the primitive places the
  labware at slot 3.
\<close>

theorem load_custom_labware_auto_slot:
  assumes "fs file = Some contents" and "json_load api contents = Some labware_file"
  shows "load_custom_labware api fs (ProtocolContext protocol) file PNone label =
           (case next_empty_slot protocol of
              Inl e \<Rightarrow> (Inl e, ProtocolContext protocol)
            | Inr slot \<Rightarrow>
                apsnd ProtocolContext
                  (deck_load_labware_from_definition api labware_file (PInt slot) label protocol))
         \<and> (7 \<le> length (deck protocol) \<and> \<not> thermocycler_loaded protocol \<and>
              \<not> slot_empty (deck protocol) 1 \<and> \<not> slot_empty (deck protocol) 2 \<and>
              slot_empty (deck protocol) 3 \<longrightarrow>
              load_custom_labware api fs (ProtocolContext protocol) file PNone label =
                apsnd ProtocolContext
                  (deck_load_labware_from_definition api labware_file (PInt 3) label protocol))"
proof -
  have "load_custom_labware api fs (ProtocolContext protocol) file PNone label =
           (case next_empty_slot protocol of
              Inl e \<Rightarrow> (Inl e, ProtocolContext protocol)
            | Inr slot \<Rightarrow>
                apsnd ProtocolContext
                  (deck_load_labware_from_definition api labware_file (PInt slot) label protocol))"
    using assms by (simp add: load_custom_labware_def split: sum.splits)
  then show ?thesis
    using next_empty_slot_third [of protocol] by auto
qed

theorem load_custom_labware_auto_slot_witness:
  "script_fs ''labware/plate.json'' = Some ''{}''
   \<and> json_load (spec_platform script_parse True (\<lambda>l. ''plate on 3'')) ''{}'' = Some ''plate''
   \<and> \<not> slot_empty plain_deck 1 \<and> \<not> slot_empty plain_deck 2 \<and> slot_empty plain_deck 3
   \<and> \<not> thermocycler_loaded \<lparr>deck = plain_deck\<rparr>
   \<and> load_custom_labware (spec_platform script_parse True (\<lambda>l. ''plate on 3'')) script_fs
       (ProtocolContext \<lparr>deck = plain_deck\<rparr>) ''labware/plate.json'' PNone (Some ''DNA and Primers'')
     = (Inr \<lparr>lw_definition = ''plate'', lw_location = DeckSlot 3,
             lw_label = Some ''DNA and Primers''\<rparr>,
        ProtocolContext \<lparr>deck = plain_deck
          [2 := Some \<lparr>item_str = ''plate on 3'',
                  item_labware = Some \<lparr>lw_definition = ''plate'', lw_location = DeckSlot 3,
                                       lw_label = Some ''DNA and Primers''\<rparr>\<rparr>]\<rparr>)"
proof -
  have f: "script_fs ''labware/plate.json'' = Some ''{}''"
    by (simp add: script_fs_def)
  have j: "json_load (spec_platform script_parse True (\<lambda>l. ''plate on 3'')) ''{}'' = Some ''plate''"
    by (simp add: spec_platform_def script_parse_def)
  have l: "7 \<le> length (deck \<lparr>deck = plain_deck\<rparr>)"
    by (simp add: plain_deck_def script_deck_def)
  have h: "\<not> thermocycler_loaded \<lparr>deck = plain_deck\<rparr>"
    by (simp add: thermocycler_loaded_iff plain_deck_def script_deck_def occupant_def)
  have e: "slot_empty plain_deck 3" "\<not> slot_empty plain_deck 1" "\<not> slot_empty plain_deck 2"
    by (simp_all add: slot_empty_iff plain_deck_def script_deck_def)
  have e': "slot_empty (deck \<lparr>deck = plain_deck\<rparr>) 3"
    "\<not> slot_empty (deck \<lparr>deck = plain_deck\<rparr>) 1" "\<not> slot_empty (deck \<lparr>deck = plain_deck\<rparr>) 2"
    using e by simp_all
  have p: "deck_load_labware_from_definition (spec_platform script_parse True (\<lambda>l. ''plate on 3''))
        ''plate'' (PInt 3) (Some ''DNA and Primers'') \<lparr>deck = plain_deck\<rparr> =
      (Inr \<lparr>lw_definition = ''plate'', lw_location = DeckSlot 3,
             lw_label = Some ''DNA and Primers''\<rparr>,
       \<lparr>deck = plain_deck
          [2 := Some \<lparr>item_str = ''plate on 3'',
                  item_labware = Some \<lparr>lw_definition = ''plate'', lw_location = DeckSlot 3,
                                       lw_label = Some ''DNA and Primers''\<rparr>\<rparr>]\<rparr>)"
    using e(1)
    by (simp add: spec_platform_def load_labware_from_definition_deck_def slot_empty_iff Let_def)
  from load_custom_labware_auto_slot
      [where fs = script_fs and ?file = "''labware/plate.json''" and contents = "''{}''"
         and api = "spec_platform script_parse True (\<lambda>l. ''plate on 3'')"
         and labware_file = "''plate''" and protocol = "\<lparr>deck = plain_deck\<rparr>"
         and label = "Some ''DNA and Primers''", OF f j] l h e'
  have "load_custom_labware (spec_platform script_parse True (\<lambda>l. ''plate on 3'')) script_fs
       (ProtocolContext \<lparr>deck = plain_deck\<rparr>) ''labware/plate.json'' PNone (Some ''DNA and Primers'')
     = apsnd ProtocolContext
         (deck_load_labware_from_definition (spec_platform script_parse True (\<lambda>l. ''plate on 3''))
            ''plate'' (PInt 3) (Some ''DNA and Primers'') \<lparr>deck = plain_deck\<rparr>)"
    by blast
  with f j h e p show ?thesis by simp
qed

text \<open>
  Claim C6. When the parent is not the protocol context, the result does not depend on
  \<^verbatim>\<open>deck_position\<close> (none is required), nor on the deck's placement primitive, and no deck
  is consulted: once the definition file has loaded, the result is that of the module's own
  primitive, called with the definition and the label only.
\<close>

theorem load_custom_labware_module:
  "load_custom_labware api fs (ModuleContext m) file deck_position label =
     load_custom_labware api fs (ModuleContext m) file PNone label
   \<and> load_custom_labware (api\<lparr>deck_load_labware_from_definition := other\<rparr>) fs
         (ModuleContext m) file deck_position label =
       load_custom_labware api fs (ModuleContext m) file deck_position label
   \<and> (fs file = Some contents \<and> json_load api contents = Some labware_file \<longrightarrow>
        load_custom_labware api fs (ModuleContext m) file deck_position label =
          apsnd ModuleContext (module_load_labware_from_definition api labware_file label m))"
  by (simp add: load_custom_labware_def split: option.splits)

theorem load_custom_labware_module_witness:
  "script_fs ''labware/plate.json'' = Some ''{}''
   \<and> json_load (spec_platform script_parse True (\<lambda>l. ''plate'')) ''{}'' = Some ''plate''
   \<and> load_custom_labware (spec_platform script_parse True (\<lambda>l. ''plate'')) script_fs
        (ModuleContext \<lparr>bay = None\<rparr>) ''labware/plate.json'' (PInt 3) (Some ''Reagents'')
      = (Inr \<lparr>lw_definition = ''plate'', lw_location = ModuleBay, lw_label = Some ''Reagents''\<rparr>,
         ModuleContext \<lparr>bay = Some \<lparr>lw_definition = ''plate'', lw_location = ModuleBay,
                                     lw_label = Some ''Reagents''\<rparr>\<rparr>)"
proof -
  have f: "script_fs ''labware/plate.json'' = Some ''{}''"
    by (simp add: script_fs_def)
  have j: "json_load (spec_platform script_parse True (\<lambda>l. ''plate'')) ''{}'' = Some ''plate''"
    by (simp add: spec_platform_def script_parse_def)
  have p: "module_load_labware_from_definition (spec_platform script_parse True (\<lambda>l. ''plate''))
             ''plate'' (Some ''Reagents'') \<lparr>bay = None\<rparr>
           = (Inr \<lparr>lw_definition = ''plate'', lw_location = ModuleBay, lw_label = Some ''Reagents''\<rparr>,
              \<lparr>bay = Some \<lparr>lw_definition = ''plate'', lw_location = ModuleBay,
                             lw_label = Some ''Reagents''\<rparr>\<rparr>)"
    by (simp add: spec_platform_def load_labware_from_definition_module_def Let_def)
  from load_custom_labware_module
      [where fs = script_fs and ?file = "''labware/plate.json''" and contents = "''{}''"
         and api = "spec_platform script_parse True (\<lambda>l. ''plate'')"
         and labware_file = "''plate''" and m = "\<lparr>bay = None\<rparr>"
         and label = "Some ''Reagents''" and deck_position = "PInt 3"] f j
  have "load_custom_labware (spec_platform script_parse True (\<lambda>l. ''plate'')) script_fs
        (ModuleContext \<lparr>bay = None\<rparr>) ''labware/plate.json'' (PInt 3) (Some ''Reagents'')
      = apsnd ModuleContext (module_load_labware_from_definition
          (spec_platform script_parse True (\<lambda>l. ''plate'')) ''plate'' (Some ''Reagents'')
          \<lparr>bay = None\<rparr>)"
    by blast
  with f j p show ?thesis by simp
qed

text \<open>
  Claim C7, as stated for every call, fails: with a module as parent the supplied slot 3
  does not reach the placement primitive. The module's primitive is called with the
  definition and the label only, the labware lands in the module's bay, and the call with
  slot 5 gives the same result.
\<close>

theorem load_custom_labware_module_slot_counterexample:
  "truthy (PInt 3)
   \<and> load_custom_labware (spec_platform script_parse True (\<lambda>l. ''plate'')) script_fs
        (ModuleContext \<lparr>bay = None\<rparr>) ''labware/plate.json'' (PInt 3) (Some ''Reagents'')
      = apsnd ModuleContext
          (load_labware_from_definition_module True ''plate'' (Some ''Reagents'') \<lparr>bay = None\<rparr>)
   \<and> load_custom_labware (spec_platform script_parse True (\<lambda>l. ''plate'')) script_fs
        (ModuleContext \<lparr>bay = None\<rparr>) ''labware/plate.json'' (PInt 3) (Some ''Reagents'')
      = (Inr \<lparr>lw_definition = ''plate'', lw_location = ModuleBay, lw_label = Some ''Reagents''\<rparr>,
         ModuleContext \<lparr>bay = Some \<lparr>lw_definition = ''plate'', lw_location = ModuleBay,
                                     lw_label = Some ''Reagents''\<rparr>\<rparr>)
   \<and> load_custom_labware (spec_platform script_parse True (\<lambda>l. ''plate'')) script_fs
        (ModuleContext \<lparr>bay = None\<rparr>) ''labware/plate.json'' (PInt 3) (Some ''Reagents'')
      = load_custom_labware (spec_platform script_parse True (\<lambda>l. ''plate'')) script_fs
        (ModuleContext \<lparr>bay = None\<rparr>) ''labware/plate.json'' (PInt 5) (Some ''Reagents'')"
  by (simp add: load_custom_labware_def spec_platform_def script_fs_def script_parse_def
      load_labware_from_definition_module_def Let_def)

text \<open>
  Claim C7, amended. When the parent is the protocol context and the caller supplies a
  slot (any truthy value; every slot identifier is one, see \<open>slot_identifier_truthy\<close>),
  the loader hands exactly that value to the placement primitive, whatever the deck holds
  there: the deck's occupancy is not looked at.
\<close>

theorem load_custom_labware_explicit_slot:
  assumes "truthy deck_position"
    and "fs file = Some contents" and "json_load api contents = Some labware_file"
  shows "load_custom_labware api fs (ProtocolContext protocol) file deck_position label =
           apsnd ProtocolContext
             (deck_load_labware_from_definition api labware_file deck_position label protocol)"
  using assms by (simp add: load_custom_labware_def)

theorem load_custom_labware_explicit_slot_witness:
  "truthy (PInt 1) \<and> \<not> slot_empty script_deck 1
   \<and> script_fs ''labware/plate.json'' = Some ''{}''
   \<and> json_load (spec_platform script_parse False (\<lambda>l. ''plate on 1'')) ''{}'' = Some ''plate''
   \<and> load_custom_labware (spec_platform script_parse False (\<lambda>l. ''plate on 1'')) script_fs
        (ProtocolContext \<lparr>deck = script_deck\<rparr>) ''labware/plate.json'' (PInt 1) None
      = apsnd ProtocolContext
          (load_labware_from_definition_deck False (\<lambda>l. ''plate on 1'') ''plate'' (PInt 1) None
             \<lparr>deck = script_deck\<rparr>)"
proof -
  have t: "truthy (PInt 1)" by simp
  have o: "\<not> slot_empty script_deck 1"
    by (simp add: slot_empty_iff script_deck_def)
  have f: "script_fs ''labware/plate.json'' = Some ''{}''"
    by (simp add: script_fs_def)
  have j: "json_load (spec_platform script_parse False (\<lambda>l. ''plate on 1'')) ''{}'' = Some ''plate''"
    by (simp add: spec_platform_def script_parse_def)
  from load_custom_labware_explicit_slot
      [where fs = script_fs and ?file = "''labware/plate.json''" and contents = "''{}''"
         and api = "spec_platform script_parse False (\<lambda>l. ''plate on 1'')"
         and labware_file = "''plate''" and protocol = "\<lparr>deck = script_deck\<rparr>"
         and label = None and deck_position = "PInt 1", OF t f j] t o f j
  show ?thesis by (simp add: spec_platform_def)
qed

text \<open>
  Claim C8. When the definition file is missing, or its contents are not valid JSON, the
  loader fails with the error of \<^verbatim>\<open>open\<close> or of \<^verbatim>\<open>json.load\<close>, for every parent, slot and
  label, and the parent (deck or module) is left as it was: no primitive has run.
\<close>

theorem load_custom_labware_definition_error:
  "(fs file = None \<longrightarrow>
      load_custom_labware api fs parent file deck_position label =
        (Inl (FileNotFoundError file), parent))
   \<and> (fs file = Some contents \<and> json_load api contents = None \<longrightarrow>
        load_custom_labware api fs parent file deck_position label =
          (Inl JSONDecodeError, parent))"
  by (simp add: load_custom_labware_def)

theorem load_custom_labware_definition_error_witness:
  "script_fs ''labware/missing.json'' = None
   \<and> load_custom_labware (spec_platform script_parse True (\<lambda>l. ''plate'')) script_fs
        (ProtocolContext \<lparr>deck = script_deck\<rparr>) ''labware/missing.json'' PNone None
      = (Inl (FileNotFoundError ''labware/missing.json''), ProtocolContext \<lparr>deck = script_deck\<rparr>)
   \<and> script_fs ''labware/broken.json'' = Some ''{''
   \<and> json_load (spec_platform script_parse True (\<lambda>l. ''plate'')) ''{'' = None
   \<and> load_custom_labware (spec_platform script_parse True (\<lambda>l. ''plate'')) script_fs
        (ModuleContext \<lparr>bay = None\<rparr>) ''labware/broken.json'' PNone None
      = (Inl JSONDecodeError, ModuleContext \<lparr>bay = None\<rparr>)"
proof -
  have f: "script_fs ''labware/missing.json'' = None"
    "script_fs ''labware/broken.json'' = Some ''{''"
    by (simp_all add: script_fs_def)
  have j: "json_load (spec_platform script_parse True (\<lambda>l. ''plate'')) ''{'' = None"
    by (simp add: spec_platform_def script_parse_def)
  from load_custom_labware_definition_error
      [where fs = script_fs and ?file = "''labware/missing.json''"
         and api = "spec_platform script_parse True (\<lambda>l. ''plate'')"
         and parent = "ProtocolContext \<lparr>deck = script_deck\<rparr>"
         and label = None and deck_position = PNone]
    load_custom_labware_definition_error
      [where fs = script_fs and ?file = "''labware/broken.json''" and contents = "''{''"
         and api = "spec_platform script_parse True (\<lambda>l. ''plate'')"
         and parent = "ModuleContext \<lparr>bay = None\<rparr>"
         and label = None and deck_position = PNone] f j
  show ?thesis by blast
qed

lemma spec_deck_load_result:
  "load_labware_from_definition_deck detect display defn position label protocol =
     (Inr labware, protocol') \<Longrightarrow>
   lw_definition labware = defn \<and> lw_label labware = label"
  by (auto simp: load_labware_from_definition_deck_def Let_def split: pyval.splits if_splits)

lemma spec_module_load_result:
  "load_labware_from_definition_module detect defn label m = (Inr labware, m') \<Longrightarrow>
   lw_definition labware = defn \<and> lw_label labware = label"
  by (auto simp: load_labware_from_definition_module_def Let_def split: if_splits)

text \<open>
  Claim C9. With the placement primitives as the specification describes them, every
  successful call returns a labware whose definition is the one read from the file and
  whose label is the caller's, for every parent and every \<^verbatim>\<open>deck_position\<close>, supplied or
  not.
\<close>

theorem load_custom_labware_round_trip:
  assumes "load_custom_labware (spec_platform parse detect display) fs parent file
             deck_position label = (Inr labware, parent')"
  shows "\<exists>contents. fs file = Some contents \<and> parse contents = Some (lw_definition labware)
           \<and> lw_label labware = label"
proof (cases "fs file")
  case None
  with assms show ?thesis by (simp add: load_custom_labware_def)
next
  case (Some contents)
  show ?thesis
  proof (cases "parse contents")
    case None
    with Some assms show ?thesis by (simp add: load_custom_labware_def spec_platform_def)
  next
    case parsed: (Some labware_file)
    have "lw_definition labware = labware_file \<and> lw_label labware = label"
    proof (cases parent)
      case (ProtocolContext protocol)
      with Some parsed assms obtain position protocol' where
        "load_labware_from_definition_deck detect display labware_file position label protocol =
           (Inr labware, protocol')"
        by (auto simp: load_custom_labware_def spec_platform_def apsnd_def map_prod_def
            split: sum.splits if_splits prod.splits)
      then show ?thesis by (rule spec_deck_load_result)
    next
      case (ModuleContext m)
      with Some parsed assms obtain m' where
        "load_labware_from_definition_module detect labware_file label m = (Inr labware, m')"
        by (auto simp: load_custom_labware_def spec_platform_def apsnd_def map_prod_def
            split: prod.splits)
      then show ?thesis by (rule spec_module_load_result)
    qed
    with Some parsed show ?thesis by simp
  qed
qed

theorem load_custom_labware_round_trip_witness:
  "(\<exists>labware parent'.
      load_custom_labware (spec_platform script_parse True (\<lambda>l. ''plate'')) script_fs
        (ProtocolContext \<lparr>deck = script_deck\<rparr>) ''labware/plate.json'' (PInt 5)
        (Some ''DNA and Primers'') = (Inr labware, parent')
      \<and> lw_location labware = DeckSlot 5
      \<and> script_parse ''{}'' = Some (lw_definition labware)
      \<and> lw_label labware = Some ''DNA and Primers'')
   \<and> (\<exists>labware parent'.
      load_custom_labware (spec_platform script_parse True (\<lambda>l. ''plate'')) script_fs
        (ProtocolContext \<lparr>deck = script_deck\<rparr>) ''labware/plate.json'' PNone
        (Some ''DNA and Primers'') = (Inr labware, parent')
      \<and> lw_location labware = DeckSlot 3
      \<and> script_parse ''{}'' = Some (lw_definition labware)
      \<and> lw_label labware = Some ''DNA and Primers'')"
proof -
  have f: "script_fs ''labware/plate.json'' = Some ''{}''"
    by (simp add: script_fs_def)
  have n: "next_empty_slot \<lparr>deck = script_deck\<rparr> = Inr 3"
    by (simp add: next_empty_slot_def deck_getitem_def script_deck_def occupant_def)
  obtain l1 p1 where 1:
    "load_custom_labware (spec_platform script_parse True (\<lambda>l. ''plate'')) script_fs
        (ProtocolContext \<lparr>deck = script_deck\<rparr>) ''labware/plate.json'' (PInt 5)
        (Some ''DNA and Primers'') = (Inr l1, p1)" "lw_location l1 = DeckSlot 5"
    by (simp add: load_custom_labware_def f spec_platform_def script_parse_def
        load_labware_from_definition_deck_def script_deck_def Let_def)
  obtain l2 p2 where 2:
    "load_custom_labware (spec_platform script_parse True (\<lambda>l. ''plate'')) script_fs
        (ProtocolContext \<lparr>deck = script_deck\<rparr>) ''labware/plate.json'' PNone
        (Some ''DNA and Primers'') = (Inr l2, p2)" "lw_location l2 = DeckSlot 3"
  proof -
    have "load_custom_labware (spec_platform script_parse True (\<lambda>l. ''plate'')) script_fs
        (ProtocolContext \<lparr>deck = script_deck\<rparr>) ''labware/plate.json'' PNone
        (Some ''DNA and Primers'') =
      apsnd ProtocolContext
        (load_labware_from_definition_deck True (\<lambda>l. ''plate'') ''plate'' (PInt 3)
           (Some ''DNA and Primers'') \<lparr>deck = script_deck\<rparr>)"
      by (simp add: load_custom_labware_def f n spec_platform_def script_parse_def)
    then show ?thesis
      using that
      by (simp add: load_labware_from_definition_deck_def script_deck_def Let_def)
  qed
  from load_custom_labware_round_trip [OF 1(1)] load_custom_labware_round_trip [OF 2(1)] f 1 2
  show ?thesis by auto
qed

text \<open>
  Claim C10. The falsy values of \<^verbatim>\<open>deck_position\<close> are \<^verbatim>\<open>None\<close>, \<open>0\<close>, the empty string and
  \<^verbatim>\<open>False\<close>; with the protocol context as parent each of them gives the result of the call
  without a slot, which takes the slot from \<^verbatim>\<open>next_empty_slot\<close>.
\<close>

theorem load_custom_labware_falsy_slot:
  "(\<not> truthy deck_position \<longleftrightarrow> deck_position \<in> {PNone, PInt 0, PStr [], PBool False})
   \<and> (\<not> truthy deck_position \<longrightarrow>
        load_custom_labware api fs (ProtocolContext protocol) file deck_position label =
          load_custom_labware api fs (ProtocolContext protocol) file PNone label)
   \<and> (\<not> truthy deck_position \<and> fs file = Some contents \<and>
        json_load api contents = Some labware_file \<longrightarrow>
        load_custom_labware api fs (ProtocolContext protocol) file deck_position label =
          (case next_empty_slot protocol of
             Inl e \<Rightarrow> (Inl e, ProtocolContext protocol)
           | Inr slot \<Rightarrow>
               apsnd ProtocolContext
                 (deck_load_labware_from_definition api labware_file (PInt slot) label protocol)))"
proof -
  have "\<not> truthy deck_position \<longleftrightarrow> deck_position \<in> {PNone, PInt 0, PStr [], PBool False}"
    by (cases deck_position) auto
  moreover have "\<not> truthy deck_position \<longrightarrow>
        load_custom_labware api fs (ProtocolContext protocol) file deck_position label =
          load_custom_labware api fs (ProtocolContext protocol) file PNone label"
    by (simp add: load_custom_labware_def split: option.splits)
  moreover have "\<not> truthy deck_position \<and> fs file = Some contents \<and>
        json_load api contents = Some labware_file \<longrightarrow>
        load_custom_labware api fs (ProtocolContext protocol) file deck_position label =
          (case next_empty_slot protocol of
             Inl e \<Rightarrow> (Inl e, ProtocolContext protocol)
           | Inr slot \<Rightarrow>
               apsnd ProtocolContext
                 (deck_load_labware_from_definition api labware_file (PInt slot) label protocol))"
    by (simp add: load_custom_labware_def split: sum.splits)
  ultimately show ?thesis by blast
qed

theorem load_custom_labware_falsy_slot_witness:
  "\<not> truthy (PInt 0) \<and> \<not> truthy (PStr []) \<and> \<not> truthy (PBool False)
   \<and> script_fs ''labware/plate.json'' = Some ''{}''
   \<and> json_load (spec_platform script_parse True (\<lambda>l. ''plate'')) ''{}'' = Some ''plate''
   \<and> next_empty_slot \<lparr>deck = script_deck\<rparr> = Inr 3
   \<and> load_custom_labware (spec_platform script_parse True (\<lambda>l. ''plate'')) script_fs
        (ProtocolContext \<lparr>deck = script_deck\<rparr>) ''labware/plate.json'' (PInt 0) None
      = apsnd ProtocolContext
          (load_labware_from_definition_deck True (\<lambda>l. ''plate'') ''plate'' (PInt 3) None
             \<lparr>deck = script_deck\<rparr>)"
proof -
  have t: "\<not> truthy (PInt 0)" "\<not> truthy (PStr [])" "\<not> truthy (PBool False)"
    by simp_all
  have f: "script_fs ''labware/plate.json'' = Some ''{}''"
    by (simp add: script_fs_def)
  have j: "json_load (spec_platform script_parse True (\<lambda>l. ''plate'')) ''{}'' = Some ''plate''"
    by (simp add: spec_platform_def script_parse_def)
  have n: "next_empty_slot \<lparr>deck = script_deck\<rparr> = Inr 3"
    by (simp add: next_empty_slot_def deck_getitem_def script_deck_def occupant_def)
  from load_custom_labware_falsy_slot
      [where fs = script_fs and ?file = "''labware/plate.json''" and contents = "''{}''"
         and api = "spec_platform script_parse True (\<lambda>l. ''plate'')"
         and labware_file = "''plate''" and protocol = "\<lparr>deck = script_deck\<rparr>"
         and label = None and deck_position = "PInt 0"] t(1) f j
  have "load_custom_labware (spec_platform script_parse True (\<lambda>l. ''plate'')) script_fs
        (ProtocolContext \<lparr>deck = script_deck\<rparr>) ''labware/plate.json'' (PInt 0) None
      = (case next_empty_slot \<lparr>deck = script_deck\<rparr> of
             Inl e \<Rightarrow> (Inl e, ProtocolContext \<lparr>deck = script_deck\<rparr>)
           | Inr slot \<Rightarrow>
               apsnd ProtocolContext
                 (deck_load_labware_from_definition
                    (spec_platform script_parse True (\<lambda>l. ''plate'')) ''plate'' (PInt slot) None
                    \<lparr>deck = script_deck\<rparr>))"
    by blast
  with t f j n show ?thesis by (simp add: spec_platform_def)
qed

end
